theory Spec2Isabelle
  imports Main
begin

section \<open>The content-delivery bot and its admin API\<close>

text \<open>
  The repository holds several drafts of one bot. This development embeds the current,
  fullest one (webhook mode, persistent store, daily statistics, file registry, prefixed
  callback payloads); the older drafts (\<^verbatim>\<open>index.js\<close> and the appended first draft) lack the
  persistent store and the prefix convention.

  Conventions of the embedding.
  \<^item> The registries \<^verbatim>\<open>botData\<close> and \<^verbatim>\<open>filesData\<close> are plain objects used as dictionaries. Their
    own properties are association lists in insertion order, the order \<^verbatim>\<open>Object.keys\<close> gives
    for keys that are not array indices. The page handlers read \<^verbatim>\<open>botData[k]\<close> through the
    prototype chain (\<open>pageAt\<close> below): a key that is not an own key but names a member of
    \<^verbatim>\<open>Object.prototype\<close>, such as \<^verbatim>\<open>constructor\<close>, yields that member. The built-in objects
    themselves are not part of the state and the model never changes them; the handler
    that adds a button is modelled on the own keys of the registry.
  \<^item> Values are typed as the admin API creates them: a page has an optional title, an
    optional message and an optional button grid; a button is an object, hence truthy. A
    string is truthy iff it is not empty; in a request, a missing string field is written as
    the empty string where the code only tests its truthiness.
  \<^item> A JavaScript \<^verbatim>\<open>Set\<close> is a duplicate-free list in insertion order.
  \<^item> A \<^verbatim>\<open>Date\<close> is the pair of the two observations the code makes of it.
  \<^item> Calls to the chat transport and to \<^verbatim>\<open>saveData\<close> are collected, in program order, in a
    list of calls. Whether an awaited transport call resolves is decided by a parameter
    \<open>tr\<close> of the handler; calls that are not awaited cannot affect the handler.
  \<^item> The user-visible notices are Arabic string literals; each is a constructor of
    \<open>notice\<close>.
  \<^item> Counters are JavaScript numbers; they are modelled as unbounded integers.
  \<^item> A handler runs from its state to its result on its own: the interleaving of handlers
    at an \<^verbatim>\<open>await\<close> is not modelled.
\<close>

subsection \<open>Data\<close>

record button =
  b_text :: string
  url :: "string option"
  callback_data :: "string option"

text \<open>
  One slot of a JavaScript array of rows: a row, an empty slot of a sparse array (which
  \<^verbatim>\<open>Array.prototype.map\<close> skips and \<^verbatim>\<open>JSON.stringify\<close> writes as \<^verbatim>\<open>null\<close>), or \<^verbatim>\<open>null\<close>.
\<close>

datatype 'a slot = Hole | Null | Row "'a list"

type_synonym grid = "button slot list"

text \<open>
  A page object. Each field may be missing (\<^verbatim>\<open>undefined\<close>): the create handler sets all three,
  but a partial update of a key that the registry only inherits stores just the fields of
  the request.
\<close>

record page =
  title :: "string option"
  message :: "string option"
  buttons :: "grid option"

record fileRecord =
  f_id :: string
  f_name :: string
  f_type :: string
  f_size :: int
  file_id :: string
  uploadDate :: string

record date =
  getTime :: int
  toDateString :: string

record stats =
  users :: "int list"
  messages :: int
  todayUsers :: "int list"
  todayMessages :: int
  startDate :: date
  dailyReset :: string

record state =
  botData :: "(string \<times> page) list"
  filesData :: "(string \<times> fileRecord) list"
  stats :: stats

subsection \<open>Outbound calls\<close>

datatype notice =
    PageNotFound
  | WelcomeNoPages
  | FileSendError
  | FileUnavailable
  | PageUnavailable
  | UnknownButton

datatype msgtext = Notice notice | Str string

datatype kbutton = UrlButton string string | CallbackButton string string

text \<open>
  \<open>MarkdownKeyboard kb\<close> stands for the options
  \<^verbatim>\<open>{reply_markup: {inline_keyboard: kb}, parse_mode: 'Markdown'}\<close>.
\<close>

datatype opts = NoOpts | MarkdownKeyboard "kbutton slot list"

datatype call =
    SaveData
  | AnswerCallbackQuery string
  | SendMessage int msgtext opts
  | EditMessageText msgtext int int opts
  | SendPhoto int string
  | SendVideo int string
  | SendAudio int string
  | SendDocument int string

datatype failure = TypeError | TransportError

datatype outcome = Completed | Failed failure

subsection \<open>JavaScript primitives\<close>

definition startsWith :: "string \<Rightarrow> string \<Rightarrow> bool" where
  "startsWith s p = (take (length p) s = p)"

definition substring :: "string \<Rightarrow> nat \<Rightarrow> string" where
  "substring s n = drop n s"

text \<open>\<^verbatim>\<open>String(x)\<close> for a value that is a string or \<^verbatim>\<open>undefined\<close>.\<close>

definition String_js :: "string option \<Rightarrow> string" where
  "String_js x = (case x of None \<Rightarrow> ''undefined'' | Some s \<Rightarrow> s)"

definition Set_add :: "'a \<Rightarrow> 'a list \<Rightarrow> 'a list" where
  "Set_add x xs = (if x \<in> set xs then xs else xs @ [x])"

definition new_Set :: "'a list \<Rightarrow> 'a list" where
  "new_Set xs = foldl (\<lambda>acc x. Set_add x acc) [] xs"

text \<open>\<^verbatim>\<open>obj[k] = v\<close> and \<^verbatim>\<open>delete obj[k]\<close> on a plain object.\<close>

fun assign :: "'k \<Rightarrow> 'v \<Rightarrow> ('k \<times> 'v) list \<Rightarrow> ('k \<times> 'v) list" where
  "assign k v [] = [(k, v)]"
| "assign k v (p # ps) = (if fst p = k then (k, v) # ps else p # assign k v ps)"

definition delete_key :: "'k \<Rightarrow> ('k \<times> 'v) list \<Rightarrow> ('k \<times> 'v) list" where
  "delete_key k ps = filter (\<lambda>p. fst p \<noteq> k) ps"

definition keys :: "('k \<times> 'v) list \<Rightarrow> 'k list" where
  "keys ps = map fst ps"

text \<open>
  The string-named members of \<^verbatim>\<open>Object.prototype\<close>, which every plain object inherits. Each
  is a function, except \<^verbatim>\<open>__proto__\<close>, an accessor that reads as \<^verbatim>\<open>Object.prototype\<close> itself;
  all are truthy, and none has a \<^verbatim>\<open>title\<close>, \<^verbatim>\<open>message\<close> or \<^verbatim>\<open>buttons\<close> property or an own
  enumerable property.
\<close>

definition ObjectPrototype :: "string list" where
  "ObjectPrototype =
     [''constructor'', ''__defineGetter__'', ''__defineSetter__'', ''hasOwnProperty'',
      ''__lookupGetter__'', ''__lookupSetter__'', ''isPrototypeOf'', ''propertyIsEnumerable'',
      ''toString'', ''valueOf'', ''__proto__'', ''toLocaleString'']"

text \<open>An inherited member, seen through the three fields the handlers read or spread.\<close>

definition undefinedPage :: page where
  "undefinedPage = \<lparr>title = None, message = None, buttons = None\<rparr>"

text \<open>
  \<^verbatim>\<open>botData[k]\<close>: the own property if there is one, else the inherited member, else
  \<^verbatim>\<open>undefined\<close>. Whatever is found is an object or a function and so truthy.
\<close>

definition pageAt :: "(string \<times> page) list \<Rightarrow> string \<Rightarrow> page option" where
  "pageAt obj k =
     (case map_of obj k of
        Some p \<Rightarrow> Some p
      | None \<Rightarrow> if k \<in> set ObjectPrototype then Some undefinedPage else None)"

text \<open>
  \<^verbatim>\<open>botData[k] = v\<close> for an object \<open>v\<close>. An own key is overwritten and any other key becomes a
  new own key, shadowing an inherited member; only \<^verbatim>\<open>__proto__\<close>, when it is not an own key,
  goes to the inherited setter, which adds no own key (it makes \<open>v\<close> the prototype of the
  registry object, a link the state does not record).
\<close>

definition set_prop :: "string \<Rightarrow> page \<Rightarrow> (string \<times> page) list \<Rightarrow> (string \<times> page) list" where
  "set_prop k v obj =
     (if k = ''__proto__'' \<and> map_of obj k = None then obj else assign k v obj)"

subsection \<open>Bot logic\<close>

definition resetDailyStats :: "date \<Rightarrow> state \<Rightarrow> state \<times> call list" where
  "resetDailyStats now s =
     (let today = toDateString now in
      if dailyReset (stats s) \<noteq> today
      then (s\<lparr>stats := (stats s)\<lparr>todayUsers := [], todayMessages := 0, dailyReset := today\<rparr>\<rparr>,
            [SaveData])
      else (s, []))"

definition renderButton :: "button \<Rightarrow> kbutton" where
  "renderButton b =
     (case url b of
        Some u \<Rightarrow> if u \<noteq> [] then UrlButton (b_text b) u
                  else CallbackButton (b_text b) (String_js (callback_data b))
      | None \<Rightarrow> CallbackButton (b_text b) (String_js (callback_data b)))"

text \<open>
  \<^verbatim>\<open>page.buttons.map(row => row.map(...))\<close>: an empty slot is skipped and stays empty, a
  \<^verbatim>\<open>null\<close> row has no \<^verbatim>\<open>map\<close> and the call throws.
\<close>

fun inlineKeyboard :: "grid \<Rightarrow> failure + kbutton slot list" where
  "inlineKeyboard [] = Inr []"
| "inlineKeyboard (Hole # rows) =
     (case inlineKeyboard rows of Inl e \<Rightarrow> Inl e | Inr kb \<Rightarrow> Inr (Hole # kb))"
| "inlineKeyboard (Null # rows) = Inl TypeError"
| "inlineKeyboard (Row r # rows) =
     (case inlineKeyboard rows of Inl e \<Rightarrow> Inl e | Inr kb \<Rightarrow> Inr (Row (map renderButton r) # kb))"

text \<open>
  \<open>showPage\<close>: the optional \<open>messageId\<close> defaults to \<^verbatim>\<open>null\<close>; a number is truthy iff it is
  not zero. The template literal writes a missing title or message as \<^verbatim>\<open>undefined\<close>.
\<close>

definition showPage :: "state \<Rightarrow> int \<Rightarrow> string \<Rightarrow> int option \<Rightarrow> failure + call list" where
  "showPage s chatId pageKey messageId =
     (case pageAt (botData s) pageKey of
        None \<Rightarrow> Inr [SendMessage chatId (Notice PageNotFound) NoOpts]
      | Some page \<Rightarrow>
          (case (case buttons page of Some g \<Rightarrow> inlineKeyboard g | None \<Rightarrow> Inr []) of
             Inl e \<Rightarrow> Inl e
           | Inr kb \<Rightarrow>
               (let msg = Str (String_js (title page) @ [CHR 0x0A, CHR 0x0A] @
                               String_js (message page)) in
                case messageId of
                  Some m \<Rightarrow>
                    if m \<noteq> 0 then Inr [EditMessageText msg chatId m (MarkdownKeyboard kb)]
                    else Inr [SendMessage chatId msg (MarkdownKeyboard kb)]
                | None \<Rightarrow> Inr [SendMessage chatId msg (MarkdownKeyboard kb)])))"

text \<open>
  The \<^verbatim>\<open>/start\<close> command. The listener is synchronous: an error thrown by \<open>showPage\<close> leaves
  it (\<open>Failed\<close>) after the statistics were updated.
\<close>

definition onText_start :: "date \<Rightarrow> int \<Rightarrow> state \<Rightarrow> state \<times> call list \<times> outcome" where
  "onText_start now chatId s0 =
     (let (s1, c1) = resetDailyStats now s0;
          st = stats s1;
          s2 = s1\<lparr>stats := st\<lparr>users := Set_add chatId (users st),
                               messages := messages st + 1,
                               todayUsers := Set_add chatId (todayUsers st),
                               todayMessages := todayMessages st + 1\<rparr>\<rparr>;
          c2 = c1 @ [SaveData];
          welcome = SendMessage chatId (Notice WelcomeNoPages) NoOpts
      in case keys (botData s2) of
           [] \<Rightarrow> (s2, c2 @ [welcome], Completed)
         | k # _ \<Rightarrow>
             (let initialPage = (if map_of (botData s2) ''main_page'' \<noteq> None
                                 then ''main_page'' else k)
              in if initialPage \<noteq> []
                 then (case showPage s2 chatId initialPage None of
                         Inl e \<Rightarrow> (s2, c2, Failed e)
                       | Inr c \<Rightarrow> (s2, c2 @ c, Completed))
                 else (s2, c2 @ [welcome], Completed)))"

text \<open>
  The object passed to the callback-query listener. The transport library passes the
  \<^verbatim>\<open>CallbackQuery\<close> object of the Bot API on, in which the payload of the pressed button is
  the field \<^verbatim>\<open>data\<close>. The handler reads the property \<^verbatim>\<open>callback_data\<close>, which such an object
  does not have; \<open>q_callback_data\<close> is what that read gives.
\<close>

record query =
  q_id :: string
  chat_id :: int
  message_id :: int
  q_data :: "string option"
  q_callback_data :: "string option"

text \<open>
  The callback-query handler. It is an async function: a rejected awaited call or a thrown
  error rejects its promise (\<open>Failed\<close>), which the process only logs. In the file branch an
  inherited member of \<^verbatim>\<open>filesData\<close> has no \<^verbatim>\<open>file_id\<close> and is answered like a missing record.
\<close>

definition callback_query ::
  "(call \<Rightarrow> bool) \<Rightarrow> date \<Rightarrow> query \<Rightarrow> state \<Rightarrow> state \<times> call list \<times> outcome" where
  "callback_query tr now query s0 =
     (let chatId = chat_id query;
          messageId = message_id query;
          data = String_js (q_callback_data query);
          (s1, c1) = resetDailyStats now s0;
          st = stats s1;
          s2 = s1\<lparr>stats := st\<lparr>messages := messages st + 1,
                               todayMessages := todayMessages st + 1\<rparr>\<rparr>;
          c2 = c1 @ [SaveData, AnswerCallbackQuery (q_id query)]
      in if \<not> tr (AnswerCallbackQuery (q_id query)) then (s2, c2, Failed TransportError)
         else if startsWith data ''file_'' then
           (let fileId = substring data 5 in
            case map_of (filesData s2) fileId of
              None \<Rightarrow> (s2, c2 @ [SendMessage chatId (Notice FileUnavailable) NoOpts], Completed)
            | Some file \<Rightarrow>
                if file_id file \<noteq> [] then
                  (let send = (if startsWith (f_type file) ''image/'' then SendPhoto chatId (file_id file)
                               else if startsWith (f_type file) ''video/'' then SendVideo chatId (file_id file)
                               else if startsWith (f_type file) ''audio/'' then SendAudio chatId (file_id file)
                               else SendDocument chatId (file_id file))
                   in if tr send then (s2, c2 @ [send], Completed)
                      else (s2, c2 @ [send, SendMessage chatId (Notice FileSendError) NoOpts],
                            Completed))
                else (s2, c2 @ [SendMessage chatId (Notice FileUnavailable) NoOpts], Completed))
         else if startsWith data ''page_'' then
           (let pageKey = substring data 5 in
            if pageAt (botData s2) pageKey \<noteq> None then
              (case showPage s2 chatId pageKey (Some messageId) of
                 Inl e \<Rightarrow> (s2, c2, Failed e)
               | Inr c \<Rightarrow> (s2, c2 @ c, Completed))
            else (s2, c2 @ [EditMessageText (Notice PageUnavailable) chatId messageId NoOpts],
                  Completed))
         else if startsWith data ''text_'' then
           (let textContent = substring data 5 in
            (s2, c2 @ [SendMessage chatId (Str textContent) NoOpts], Completed))
         else (s2, c2 @ [EditMessageText (Notice UnknownButton) chatId messageId NoOpts],
               Completed))"

subsection \<open>Admin API: pages\<close>

text \<open>
  A handler returns the new state, the calls it made and the response. \<open>Error n\<close> is an
  error answer with HTTP status \<open>n\<close>.
\<close>

record pageData =
  d_title :: string
  d_message :: string
  d_buttons :: "grid option"

text \<open>The body of a \<^verbatim>\<open>PUT\<close>: each of the page's fields is present or not.\<close>

record patch =
  p_title :: "string option"
  p_message :: "string option"
  p_buttons :: "grid option"

record statsExport =
  totalUsers :: "int list option"
  totalMessages :: "int option"
  e_startDate :: "date option"

record backup =
  b_botData :: "(string \<times> page) list option"
  b_filesData :: "(string \<times> fileRecord) list option"
  b_stats :: "statsExport option"
  exportDate :: "date option"

datatype response =
    Success
  | Error nat
  | SearchResult "(string \<times> string option) list" "(string \<times> string) list"
  | ExportData backup

text \<open>\<^verbatim>\<open>POST /api/pages\<close> with body \<^verbatim>\<open>{pageId, pageData}\<close>.\<close>

definition post_pages :: "string \<Rightarrow> pageData option \<Rightarrow> state \<Rightarrow> state \<times> call list \<times> response" where
  "post_pages pageId pageData s =
     (case pageData of
        None \<Rightarrow> (s, [], Error 400)
      | Some d \<Rightarrow>
          if pageId = [] \<or> d_title d = [] \<or> d_message d = [] then (s, [], Error 400)
          else if pageAt (botData s) pageId \<noteq> None then (s, [], Error 400)
          else
            (let newPage = \<lparr>title = Some (d_title d), message = Some (d_message d),
                            buttons = Some (case d_buttons d of Some g \<Rightarrow> g | None \<Rightarrow> [])\<rparr>
             in (s\<lparr>botData := assign pageId newPage (botData s)\<rparr>, [SaveData], Success)))"

text \<open>
  The spread \<^verbatim>\<open>{ ...page, ...pageData }\<close>. The spread of an inherited member copies nothing, so
  the result then has the fields of the request only.
\<close>

definition merge_page :: "page \<Rightarrow> patch \<Rightarrow> page" where
  "merge_page p b =
     \<lparr>title = (case p_title b of Some t \<Rightarrow> Some t | None \<Rightarrow> title p),
      message = (case p_message b of Some m \<Rightarrow> Some m | None \<Rightarrow> message p),
      buttons = (case p_buttons b of Some g \<Rightarrow> Some g | None \<Rightarrow> buttons p)\<rparr>"

text \<open>\<^verbatim>\<open>PUT /api/pages/:pageId\<close>.\<close>

definition put_pages :: "string \<Rightarrow> patch \<Rightarrow> state \<Rightarrow> state \<times> call list \<times> response" where
  "put_pages pageId body s =
     (case pageAt (botData s) pageId of
        None \<Rightarrow> (s, [], Error 404)
      | Some p \<Rightarrow>
          (s\<lparr>botData := set_prop pageId (merge_page p body) (botData s)\<rparr>, [SaveData], Success))"

text \<open>
  \<^verbatim>\<open>DELETE /api/pages/:pageId\<close>. \<^verbatim>\<open>delete botData[k]\<close> removes an own key and does nothing for a
  key that is only inherited.
\<close>

definition delete_pages :: "string \<Rightarrow> state \<Rightarrow> state \<times> call list \<times> response" where
  "delete_pages pageId s =
     (case pageAt (botData s) pageId of
        None \<Rightarrow> (s, [], Error 404)
      | Some p \<Rightarrow> (s\<lparr>botData := delete_key pageId (botData s)\<rparr>, [SaveData], Success))"

subsection \<open>Admin API: buttons\<close>

text \<open>
  In the handler that adds a button the row index is a non-negative integer or omitted
  (\<^verbatim>\<open>undefined\<close>). Reading an array past its end gives \<^verbatim>\<open>undefined\<close>, as reading an empty slot
  does. Writing past the end extends the array and leaves empty slots in between.
\<close>

definition at :: "'a slot list \<Rightarrow> nat \<Rightarrow> 'a slot" where
  "at g i = (if i < length g then g ! i else Hole)"

definition array_set :: "'a slot list \<Rightarrow> nat \<Rightarrow> 'a slot \<Rightarrow> 'a slot list" where
  "array_set g i v =
     (if i < length g then g[i := v] else g @ replicate (i - length g) Hole @ [v])"

text \<open>\<^verbatim>\<open>xs.splice(i, 1)\<close>; nothing is removed when \<open>i\<close> is past the end.\<close>

definition splice :: "'a list \<Rightarrow> nat \<Rightarrow> 'a list" where
  "splice xs i = take i xs @ drop (Suc i) xs"

text \<open>\<^verbatim>\<open>POST /api/pages/:pageId/buttons\<close> with body \<^verbatim>\<open>{buttonData, rowIndex}\<close>.\<close>

definition post_buttons ::
  "string \<Rightarrow> button option \<Rightarrow> nat option \<Rightarrow> state \<Rightarrow> state \<times> call list \<times> response" where
  "post_buttons pageId buttonData rowIndex s =
     (case map_of (botData s) pageId of
        None \<Rightarrow> (s, [], Error 404)
      | Some p \<Rightarrow>
          (case buttonData of
             None \<Rightarrow> (s, [], Error 400)
           | Some b \<Rightarrow>
               if b_text b = [] then (s, [], Error 400)
               else
                 (let g0 = (case buttons p of Some g \<Rightarrow> g | None \<Rightarrow> []);
                      targetRow = (case rowIndex of Some r \<Rightarrow> r | None \<Rightarrow> length g0);
                      g1 = (case at g0 targetRow of
                              Row r \<Rightarrow> g0
                            | _ \<Rightarrow> array_set g0 targetRow (Row []));
                      g2 = (case at g1 targetRow of
                              Row r \<Rightarrow> g1[targetRow := Row (r @ [b])]
                            | _ \<Rightarrow> g1)
                  in (s\<lparr>botData := assign pageId (p\<lparr>buttons := Some g2\<rparr>) (botData s)\<rparr>,
                      [SaveData], Success))))"

text \<open>
  \<^verbatim>\<open>DELETE /api/pages/:pageId/buttons\<close> with body \<^verbatim>\<open>{rowIndex, buttonIndex}\<close>. The two indices
  are JSON values that the handler uses as property keys of an array, without checking that
  they are numbers. What the handler does depends only on what the key names in an array:
  \<^item> \<open>Element n\<close>: the non-negative integer \<open>n\<close>, as a number or as its decimal string; it
    names element \<open>n\<close>, and \<^verbatim>\<open>splice\<close> starts at \<open>n\<close>;
  \<^item> \<open>Length\<close>: the string \<^verbatim>\<open>length\<close>, which names the length of the array;
  \<^item> \<open>Proto\<close>: the string \<^verbatim>\<open>__proto__\<close>, which reads as \<^verbatim>\<open>Array.prototype\<close>, itself an empty
    array (\<^verbatim>\<open>Array.isArray\<close> holds of it);
  \<^item> \<open>Method\<close>: the name of another inherited member of an array, such as \<^verbatim>\<open>map\<close> or
    \<^verbatim>\<open>constructor\<close>, which reads as a function;
  \<^item> \<open>Other\<close>: anything else, also an omitted index; it reads as \<^verbatim>\<open>undefined\<close>.

  For a key that is not \<open>Element n\<close>, \<^verbatim>\<open>splice\<close> converts the key to \<^verbatim>\<open>NaN\<close> and starts at 0.
\<close>

datatype index = Element nat | Length | Proto | Method | Other

text \<open>\<^verbatim>\<open>row[buttonIndex]\<close> is truthy, for a row of button objects.\<close>

definition truthyAt :: "'a list \<Rightarrow> index \<Rightarrow> bool" where
  "truthyAt row i =
     (case i of
        Element n \<Rightarrow> n < length row
      | Length \<Rightarrow> row \<noteq> []
      | Proto \<Rightarrow> True
      | Method \<Rightarrow> True
      | Other \<Rightarrow> False)"

definition spliceStart :: "index \<Rightarrow> nat" where
  "spliceStart i = (case i of Element n \<Rightarrow> n | _ \<Rightarrow> 0)"

definition delete_buttons ::
  "string \<Rightarrow> index \<Rightarrow> index \<Rightarrow> state \<Rightarrow> state \<times> call list \<times> response" where
  "delete_buttons pageId rowIndex buttonIndex s =
     (case pageAt (botData s) pageId of
        None \<Rightarrow> (s, [], Error 404)
      | Some p \<Rightarrow>
          (case buttons p of
             None \<Rightarrow> (s, [], Error 404)
           | Some g \<Rightarrow>
               (case rowIndex of
                  Element r \<Rightarrow>
                    (case at g r of
                       Row row \<Rightarrow>
                         if truthyAt row buttonIndex then
                           (let row' = splice row (spliceStart buttonIndex);
                                g' = (if length row' = 0 then splice g r
                                      else g[r := Row row'])
                            in (s\<lparr>botData := assign pageId (p\<lparr>buttons := Some g'\<rparr>) (botData s)\<rparr>,
                                [SaveData], Success))
                         else (s, [], Error 404)
                     | _ \<Rightarrow> (s, [], Error 404))
                | Proto \<Rightarrow>
                    if buttonIndex = Method \<or> buttonIndex = Proto then
                      (s\<lparr>botData := assign pageId (p\<lparr>buttons := Some (splice g 0)\<rparr>) (botData s)\<rparr>,
                       [SaveData], Success)
                    else (s, [], Error 404)
                | _ \<Rightarrow> (s, [], Error 404))))"

subsection \<open>Admin API: export, import, search\<close>

text \<open>
  \<^verbatim>\<open>res.json\<close> sends the document through \<^verbatim>\<open>JSON.stringify\<close>, which writes an empty array
  slot as \<^verbatim>\<open>null\<close>; every other value of the model is a JSON value and is written as it is.
\<close>

definition toJSON_slot :: "'a slot \<Rightarrow> 'a slot" where
  "toJSON_slot x = (case x of Hole \<Rightarrow> Null | Null \<Rightarrow> Null | Row r \<Rightarrow> Row r)"

definition toJSON_page :: "page \<Rightarrow> page" where
  "toJSON_page p = p\<lparr>buttons := map_option (map toJSON_slot) (buttons p)\<rparr>"

definition toJSON_pages :: "(string \<times> page) list \<Rightarrow> (string \<times> page) list" where
  "toJSON_pages ps = map (\<lambda>(k, p). (k, toJSON_page p)) ps"

definition toJSON_backup :: "backup \<Rightarrow> backup" where
  "toJSON_backup b = b\<lparr>b_botData := map_option toJSON_pages (b_botData b)\<rparr>"

definition get_export :: "date \<Rightarrow> state \<Rightarrow> state \<times> call list \<times> response" where
  "get_export now s0 =
     (let (s1, c1) = resetDailyStats now s0;
          exportData = \<lparr>b_botData = Some (botData s1),
                        b_filesData = Some (filesData s1),
                        b_stats = Some \<lparr>totalUsers = Some (users (stats s1)),
                                        totalMessages = Some (messages (stats s1)),
                                        e_startDate = Some (startDate (stats s1))\<rparr>,
                        exportDate = Some now\<rparr>
      in (s1, c1, ExportData (toJSON_backup exportData)))"

text \<open>
  \<^verbatim>\<open>POST /api/import\<close>: the uploaded file is missing, is not JSON, or parses to a document.
\<close>

datatype upload = NoFile | Unparsable | Parsed backup

definition post_import :: "date \<Rightarrow> upload \<Rightarrow> state \<Rightarrow> state \<times> call list \<times> response" where
  "post_import now up s =
     (case up of
        NoFile \<Rightarrow> (s, [], Error 400)
      | Unparsable \<Rightarrow> (s, [], Error 500)
      | Parsed backupData \<Rightarrow>
          (let s1 = (case b_botData backupData of Some pages \<Rightarrow> s\<lparr>botData := pages\<rparr> | None \<Rightarrow> s);
               s2 = (case b_filesData backupData of Some files \<Rightarrow> s1\<lparr>filesData := files\<rparr> | None \<Rightarrow> s1);
               s3 = (case b_stats backupData of
                       Some e \<Rightarrow>
                         s2\<lparr>stats := (stats s2)
                              \<lparr>users := new_Set (case totalUsers e of Some us \<Rightarrow> us | None \<Rightarrow> []),
                               messages := (case totalMessages e of Some n \<Rightarrow> n | None \<Rightarrow> 0),
                               startDate := (case e_startDate e of Some d \<Rightarrow> d | None \<Rightarrow> now),
                               todayUsers := [],
                               todayMessages := 0,
                               dailyReset := toDateString now\<rparr>\<rparr>
                     | None \<Rightarrow> s2)
           in (s3, [SaveData], Success)))"

text \<open>
  \<^verbatim>\<open>toLowerCase\<close> on the ASCII letters; the bytes of other characters are left as they are.
\<close>

definition toLowerCase :: "string \<Rightarrow> string" where
  "toLowerCase s =
     map (\<lambda>c. let n = (of_char c :: nat) in if 65 \<le> n \<and> n \<le> 90 then char_of (n + 32) else c) s"

fun includes_str :: "string \<Rightarrow> string \<Rightarrow> bool" where
  "includes_str [] q = (q = [])"
| "includes_str (c # s) q = (startsWith (c # s) q \<or> includes_str s q)"

text \<open>
  The filter callback of the page search. Reading \<^verbatim>\<open>toLowerCase\<close> of a missing title or
  message throws; the message is only read when the title does not match.
\<close>

definition pageMatches :: "string \<Rightarrow> string \<Rightarrow> page \<Rightarrow> failure + bool" where
  "pageMatches query pageId p =
     (case title p of
        None \<Rightarrow> Inl TypeError
      | Some t \<Rightarrow>
          if includes_str (toLowerCase t) query then Inr True
          else (case message p of
                  None \<Rightarrow> Inl TypeError
                | Some m \<Rightarrow> Inr (includes_str (toLowerCase m) query
                                \<or> includes_str (toLowerCase pageId) query)))"

fun filterPages :: "string \<Rightarrow> (string \<times> page) list \<Rightarrow> failure + (string \<times> page) list" where
  "filterPages query [] = Inr []"
| "filterPages query ((pageId, p) # ps) =
     (case pageMatches query pageId p of
        Inl e \<Rightarrow> Inl e
      | Inr hit \<Rightarrow>
          (case filterPages query ps of
             Inl e \<Rightarrow> Inl e
           | Inr rest \<Rightarrow> Inr (if hit then (pageId, p) # rest else rest)))"

text \<open>
  \<^verbatim>\<open>GET /api/search?q=\<close>; \<open>q\<close> is the query parameter, if given. An error thrown by the
  handler is answered with status 500.
\<close>

definition get_search :: "string option \<Rightarrow> state \<Rightarrow> state \<times> call list \<times> response" where
  "get_search q s =
     (let query = (case q of Some x \<Rightarrow> toLowerCase x | None \<Rightarrow> [])
      in if query = [] then (s, [], SearchResult [] [])
         else
           (case filterPages query (botData s) of
              Inl e \<Rightarrow> (s, [], Error 500)
            | Inr hits \<Rightarrow>
                (let matchingPages = map (\<lambda>(pageId, p). (pageId, title p)) hits;
                     matchingFiles =
                       map (\<lambda>(fileId, f). (fileId, f_name f))
                         (filter (\<lambda>(fileId, f). includes_str (toLowerCase (f_name f)) query
                                               \<or> includes_str (toLowerCase (f_type f)) query)
                            (filesData s))
                 in (s, [], SearchResult matchingPages matchingFiles))))"

subsection \<open>Initial state\<close>

text \<open>The module-level values of \<^verbatim>\<open>botData\<close>, \<^verbatim>\<open>filesData\<close> and \<^verbatim>\<open>stats\<close> at start-up time \<open>now\<close>.\<close>

definition initial :: "date \<Rightarrow> state" where
  "initial now =
     \<lparr>botData = [], filesData = [],
      stats = \<lparr>users = [], messages = 0, todayUsers = [], todayMessages = 0,
               startDate = now, dailyReset = toDateString now\<rparr>\<rparr>"

subsection \<open>Replaying page operations against a reference map\<close>

datatype op = Create string "pageData option" | Update string patch | Delete string

fun apply_op :: "op \<Rightarrow> state \<Rightarrow> state" where
  "apply_op (Create pageId pageData) s = fst (post_pages pageId pageData s)"
| "apply_op (Update pageId body) s = fst (put_pages pageId body s)"
| "apply_op (Delete pageId) s = fst (delete_pages pageId s)"

definition replay :: "op list \<Rightarrow> state \<Rightarrow> state" where
  "replay ops s = fold apply_op ops s"








text \<open>
  A create request that passes the validation of \<^verbatim>\<open>POST /api/pages\<close>, and the page key an
  operation names.
\<close>

fun valid_op :: "op \<Rightarrow> bool" where
  "valid_op (Create k d) =
     (k \<noteq> [] \<and> (case d of Some x \<Rightarrow> d_title x \<noteq> [] \<and> d_message x \<noteq> [] | None \<Rightarrow> False))"
| "valid_op (Update k b) = True"
| "valid_op (Delete k) = True"


subsection \<open>Vocabulary of the statements\<close>

text \<open>The payload the callback handler decodes, and the calls it makes before dispatching.\<close>

definition payload :: "query \<Rightarrow> string" where
  "payload q = String_js (q_callback_data q)"

definition bookkeeping :: "date \<Rightarrow> query \<Rightarrow> state \<Rightarrow> call list" where
  "bookkeeping now q s = snd (resetDailyStats now s) @ [SaveData, AnswerCallbackQuery (q_id q)]"

text \<open>Delivery by MIME class: image as photo, video as video, audio as audio, else document.\<close>

definition delivery :: "int \<Rightarrow> fileRecord \<Rightarrow> call" where
  "delivery chatId f =
     (if startsWith (f_type f) ''image/'' then SendPhoto chatId (file_id f)
      else if startsWith (f_type f) ''video/'' then SendVideo chatId (file_id f)
      else if startsWith (f_type f) ''audio/'' then SendAudio chatId (file_id f)
      else SendDocument chatId (file_id f))"

definition keyboard :: "page \<Rightarrow> failure + kbutton slot list" where
  "keyboard p = (case buttons p of Some g \<Rightarrow> inlineKeyboard g | None \<Rightarrow> Inr [])"

definition pageText :: "page \<Rightarrow> msgtext" where
  "pageText p = Str (String_js (title p) @ [CHR 0x0A, CHR 0x0A] @ String_js (message p))"

text \<open>No button grid of the registry has an empty slot.\<close>

definition dense :: "(string \<times> page) list \<Rightarrow> bool" where
  "dense ps = list_all (\<lambda>(k, p). case buttons p of Some g \<Rightarrow> Hole \<notin> set g | None \<Rightarrow> True) ps"

text \<open>The document downloaded from \<^verbatim>\<open>GET /api/export\<close>, uploaded again as it is.\<close>

definition reupload :: "response \<Rightarrow> upload" where
  "reupload r = (case r of ExportData b \<Rightarrow> Parsed b | _ \<Rightarrow> NoFile)"

subsection \<open>Example data\<close>

definition day1 :: date where
  "day1 = \<lparr>getTime = 0, toDateString = ''Thu Jan 01 1970''\<rparr>"

definition day2 :: date where
  "day2 = \<lparr>getTime = 86400000, toDateString = ''Fri Jan 02 1970''\<rparr>"

text \<open>
  A press, as the transport delivers it, of a button whose payload is \<open>data\<close>; and an object
  that, unlike those, carries the payload in the property the handler reads.
\<close>

definition press :: "string \<Rightarrow> query" where
  "press data =
     \<lparr>q_id = ''q1'', chat_id = 7, message_id = 3, q_data = Some data, q_callback_data = None\<rparr>"

definition pressWith :: "string \<Rightarrow> query" where
  "pressWith data =
     \<lparr>q_id = ''q1'', chat_id = 7, message_id = 3, q_data = None, q_callback_data = Some data\<rparr>"

definition backButton :: button where
  "backButton = \<lparr>b_text = ''Back'', url = None, callback_data = Some ''page_promo''\<rparr>"

definition goButton :: button where
  "goButton = \<lparr>b_text = ''Go'', url = None, callback_data = Some ''page_main_page''\<rparr>"

definition promo :: "grid \<Rightarrow> state" where
  "promo g =
     (initial day1)\<lparr>botData := [(''promo'', \<lparr>title = Some ''Promo'', message = Some ''Hi'',
                                           buttons = Some g\<rparr>)]\<rparr>"

definition photo :: "string \<Rightarrow> fileRecord" where
  "photo h = \<lparr>f_id = ''1'', f_name = ''a.png'', f_type = ''image/png'', f_size = 10,
              file_id = h, uploadDate = ''1970-01-01T00:00:00.000Z''\<rparr>"

definition demo :: "string \<Rightarrow> state" where
  "demo h = (promo [Row [goButton]])\<lparr>filesData := [(''1'', photo h)]\<rparr>"


definition sparsePromo :: state where
  "sparsePromo = fst (post_buttons ''promo'' (Some goButton) (Some 1) (promo []))"

text \<open>The state after chat 7 has sent \<^verbatim>\<open>/start\<close> to a fresh bot on day 1.\<close>

definition started :: state where
  "started = fst (onText_start day1 7 (initial day1))"

definition createPromo :: op where
  "createPromo = Create ''promo'' (Some \<lparr>d_title = ''Promo'', d_message = ''Hi'', d_buttons = Some []\<rparr>)"



section \<open>Verification\<close>

subsection \<open>Bookkeeping lemmas\<close>

lemma resetDailyStats_botData: "botData (fst (resetDailyStats now s)) = botData s"
  by (simp add: resetDailyStats_def Let_def)

lemma resetDailyStats_filesData: "filesData (fst (resetDailyStats now s)) = filesData s"
  by (simp add: resetDailyStats_def Let_def)

lemma resetDailyStats_roll:
  "dailyReset (stats s) \<noteq> toDateString now \<Longrightarrow>
   resetDailyStats now s =
     (s\<lparr>stats := (stats s)\<lparr>todayUsers := [], todayMessages := 0,
                            dailyReset := toDateString now\<rparr>\<rparr>, [SaveData])"
  by (simp add: resetDailyStats_def Let_def)

lemma resetDailyStats_same:
  "dailyReset (stats s) = toDateString now \<Longrightarrow> resetDailyStats now s = (s, [])"
  by (simp add: resetDailyStats_def Let_def)

lemma onText_start_state:
  "fst (onText_start now chatId s) =
     (fst (resetDailyStats now s))
       \<lparr>stats := (stats (fst (resetDailyStats now s)))
          \<lparr>users := Set_add chatId (users (stats (fst (resetDailyStats now s)))),
           messages := messages (stats (fst (resetDailyStats now s))) + 1,
           todayUsers := Set_add chatId (todayUsers (stats (fst (resetDailyStats now s)))),
           todayMessages := todayMessages (stats (fst (resetDailyStats now s))) + 1\<rparr>\<rparr>"
  by (simp add: onText_start_def Let_def split: prod.splits list.splits sum.splits)

lemma callback_query_state:
  "fst (callback_query tr now q s) =
     (fst (resetDailyStats now s))
       \<lparr>stats := (stats (fst (resetDailyStats now s)))
          \<lparr>messages := messages (stats (fst (resetDailyStats now s))) + 1,
           todayMessages := todayMessages (stats (fst (resetDailyStats now s))) + 1\<rparr>\<rparr>"
  by (simp add: callback_query_def Let_def split: prod.splits option.splits sum.splits)

lemma onText_start_saves:
  "\<exists>rest. fst (snd (onText_start now chatId s)) = snd (resetDailyStats now s) @ SaveData # rest"
  by (simp add: onText_start_def Let_def split: prod.splits list.splits sum.splits)

lemma callback_query_saves:
  "\<exists>rest. fst (snd (callback_query tr now q s)) = snd (resetDailyStats now s) @ SaveData # rest"
  by (simp add: callback_query_def Let_def split: prod.splits option.splits sum.splits)

subsection \<open>Rendering a page that is not in the registry\<close>

lemma pageAt_plain: "k \<notin> set ObjectPrototype \<Longrightarrow> pageAt obj k = map_of obj k"
  by (simp add: pageAt_def split: option.splits)

lemma pageAt_own: "map_of obj k = Some p \<Longrightarrow> pageAt obj k = Some p"
  by (simp add: pageAt_def)

text \<open>
  A key that is neither an own key of the registry nor the name of an inherited member gets
  the ``page not found'' notice, as a new message, and \<open>showPage\<close> returns normally.
\<close>

lemma showPage_absent:
  "k \<notin> set (keys (botData s)) \<Longrightarrow> k \<notin> set ObjectPrototype \<Longrightarrow>
   showPage s chatId k messageId = Inr [SendMessage chatId (Notice PageNotFound) NoOpts]"
  by (simp add: showPage_def pageAt_plain keys_def map_of_eq_None_iff [THEN iffD2])

text \<open>
  Claim C2 at the key \<^verbatim>\<open>constructor\<close>. The claim says that every page key that is not present
  in the Page Registry gets the ``page not found'' notice. In a registry that holds only the
  page \<^verbatim>\<open>promo\<close> the key \<^verbatim>\<open>constructor\<close> is not present, but \<^verbatim>\<open>botData['constructor']\<close> is the
  inherited constructor function, which is truthy: \<open>showPage\<close> takes it for a page and shows
  its missing title and message, by editing the message when a message id is given and as a
  new message otherwise. No notice is sent.
\<close>

theorem showPage_inherited_key:
  "''constructor'' \<notin> set (keys (botData (promo []))) \<and>
   showPage (promo []) 7 ''constructor'' (Some 3) =
     Inr [EditMessageText (Str (''undefined'' @ [CHR 0x0A, CHR 0x0A] @ ''undefined'')) 7 3
            (MarkdownKeyboard [])] \<and>
   showPage (promo []) 7 ''constructor'' None =
     Inr [SendMessage 7 (Str (''undefined'' @ [CHR 0x0A, CHR 0x0A] @ ''undefined''))
            (MarkdownKeyboard [])]"
  by (simp add: showPage_def pageAt_def ObjectPrototype_def undefinedPage_def promo_def
      initial_def keys_def String_js_def)

subsection \<open>The daily reset\<close>

text \<open>
  Claim C4. If \<open>dailyReset\<close> holds a day string different from today's, the reset empties
  \<open>todayUsers\<close>, zeroes \<open>todayMessages\<close> and sets \<open>dailyReset\<close> to today before the interaction
  is recorded, so after a \<^verbatim>\<open>/start\<close> or a button press \<open>todayMessages\<close> is exactly 1. If
  \<open>dailyReset\<close> equals today's day string nothing is reset: the today counters continue from
  their values.
\<close>

theorem daily_reset_boundary:
  "(dailyReset (stats s) \<noteq> toDateString now \<longrightarrow>
     resetDailyStats now s =
       (s\<lparr>stats := (stats s)\<lparr>todayUsers := [], todayMessages := 0,
                              dailyReset := toDateString now\<rparr>\<rparr>, [SaveData]) \<and>
     todayMessages (stats (fst (onText_start now chatId s))) = 1 \<and>
     todayUsers (stats (fst (onText_start now chatId s))) = [chatId] \<and>
     dailyReset (stats (fst (onText_start now chatId s))) = toDateString now \<and>
     todayMessages (stats (fst (callback_query tr now q s))) = 1 \<and>
     todayUsers (stats (fst (callback_query tr now q s))) = [] \<and>
     dailyReset (stats (fst (callback_query tr now q s))) = toDateString now) \<and>
   (dailyReset (stats s) = toDateString now \<longrightarrow>
     resetDailyStats now s = (s, []) \<and>
     todayMessages (stats (fst (onText_start now chatId s))) = todayMessages (stats s) + 1 \<and>
     todayUsers (stats (fst (onText_start now chatId s))) = Set_add chatId (todayUsers (stats s)) \<and>
     dailyReset (stats (fst (onText_start now chatId s))) = dailyReset (stats s) \<and>
     todayMessages (stats (fst (callback_query tr now q s))) = todayMessages (stats s) + 1 \<and>
     todayUsers (stats (fst (callback_query tr now q s))) = todayUsers (stats s) \<and>
     dailyReset (stats (fst (callback_query tr now q s))) = dailyReset (stats s))"
proof (cases "dailyReset (stats s) = toDateString now")
  case True
  then show ?thesis
    by (simp add: onText_start_state callback_query_state resetDailyStats_same)
next
  case False
  then show ?thesis
    by (simp add: onText_start_state callback_query_state resetDailyStats_roll Set_add_def)
qed

text \<open>
  Chat 7 has sent \<^verbatim>\<open>/start\<close> on day 1, so the today counters stand at one message and one
  user. On day 2 a \<^verbatim>\<open>/start\<close> from chat 8, or a button press, starts from the reset values; on
  day 1 it continues from the values reached.
\<close>

theorem daily_reset_boundary_witness:
  "todayMessages (stats started) = 1 \<and> todayUsers (stats started) = [7] \<and>
   dailyReset (stats started) = ''Thu Jan 01 1970'' \<and>
   dailyReset (stats started) \<noteq> toDateString day2 \<and>
   resetDailyStats day2 started =
     (started\<lparr>stats := (stats started)\<lparr>todayUsers := [], todayMessages := 0,
                                          dailyReset := ''Fri Jan 02 1970''\<rparr>\<rparr>, [SaveData]) \<and>
   todayMessages (stats (fst (onText_start day2 8 started))) = 1 \<and>
   todayUsers (stats (fst (onText_start day2 8 started))) = [8] \<and>
   dailyReset (stats (fst (onText_start day2 8 started))) = ''Fri Jan 02 1970'' \<and>
   todayMessages (stats (fst (callback_query (\<lambda>c. True) day2 (press ''text_hi'') started))) = 1 \<and>
   todayUsers (stats (fst (callback_query (\<lambda>c. True) day2 (press ''text_hi'') started))) = [] \<and>
   dailyReset (stats (fst (callback_query (\<lambda>c. True) day2 (press ''text_hi'') started))) =
     ''Fri Jan 02 1970'' \<and>
   dailyReset (stats started) = toDateString day1 \<and>
   resetDailyStats day1 started = (started, []) \<and>
   todayMessages (stats (fst (onText_start day1 8 started))) = 2 \<and>
   todayUsers (stats (fst (onText_start day1 8 started))) = [7, 8] \<and>
   dailyReset (stats (fst (onText_start day1 8 started))) = ''Thu Jan 01 1970'' \<and>
   todayMessages (stats (fst (callback_query (\<lambda>c. True) day1 (press ''text_hi'') started))) = 2 \<and>
   todayUsers (stats (fst (callback_query (\<lambda>c. True) day1 (press ''text_hi'') started))) = [7]"
proof -
  have st: "stats started =
      \<lparr>users = [7], messages = 1, todayUsers = [7], todayMessages = 1,
       startDate = day1, dailyReset = ''Thu Jan 01 1970''\<rparr>"
    by (simp add: started_def onText_start_state resetDailyStats_def initial_def Set_add_def
        day1_def Let_def)
  have d: "toDateString day1 = ''Thu Jan 01 1970''" "toDateString day2 = ''Fri Jan 02 1970''"
    by (simp_all add: day1_def day2_def)
  show ?thesis
    using daily_reset_boundary [of started day2 8 "\<lambda>c. True" "press ''text_hi''"]
      daily_reset_boundary [of started day1 8 "\<lambda>c. True" "press ''text_hi''"]
    by (simp add: st d Set_add_def)
qed

subsection \<open>Recording an interaction\<close>

text \<open>
  What the two handlers record. Both first run the daily reset. A \<^verbatim>\<open>/start\<close> from chat
  \<open>chatId\<close> then adds \<open>chatId\<close> to the all-time and to the today user set and adds one to both
  message counters. A button press adds one to both message counters and leaves both user
  sets as the reset left them. Each handler then calls \<open>saveData\<close>, right after the calls of
  the reset.
\<close>

lemma record_interaction:
  "stats (fst (onText_start now chatId s)) =
     (stats (fst (resetDailyStats now s)))
        \<lparr>users := Set_add chatId (users (stats (fst (resetDailyStats now s)))),
         messages := messages (stats (fst (resetDailyStats now s))) + 1,
         todayUsers := Set_add chatId (todayUsers (stats (fst (resetDailyStats now s)))),
         todayMessages := todayMessages (stats (fst (resetDailyStats now s))) + 1\<rparr> \<and>
   stats (fst (callback_query tr now q s)) =
     (stats (fst (resetDailyStats now s)))
        \<lparr>messages := messages (stats (fst (resetDailyStats now s))) + 1,
         todayMessages := todayMessages (stats (fst (resetDailyStats now s))) + 1\<rparr> \<and>
   (\<exists>rest. fst (snd (onText_start now chatId s)) =
              snd (resetDailyStats now s) @ SaveData # rest) \<and>
   (\<exists>rest. fst (snd (callback_query tr now q s)) =
              snd (resetDailyStats now s) @ SaveData # rest)"
  by (simp add: onText_start_state callback_query_state onText_start_saves callback_query_saves)

text \<open>
  Claim C5 at a button press. The claim says that recording any inbound interaction, a
  \<^verbatim>\<open>/start\<close> or a button press, adds the chat to the all-time and to the today user set and
  adds one to both counters. Chat 7 sends \<^verbatim>\<open>/start\<close> on day 1 and is recorded in both sets. On
  day 2 it presses a button: the today counter is 1 after the press, but the today user set
  is empty. On a fresh bot a press leaves the all-time user set empty as well.
\<close>

theorem press_adds_no_user:
  "users (stats started) = [7] \<and> todayUsers (stats started) = [7] \<and>
   todayMessages (stats (fst (callback_query (\<lambda>c. True) day2 (press ''text_hi'') started))) = 1 \<and>
   todayUsers (stats (fst (callback_query (\<lambda>c. True) day2 (press ''text_hi'') started))) = [] \<and>
   messages (stats (fst (callback_query (\<lambda>c. True) day1 (press ''text_hi'') (initial day1)))) = 1 \<and>
   users (stats (fst (callback_query (\<lambda>c. True) day1 (press ''text_hi'') (initial day1)))) = []"
  by (simp add: started_def onText_start_state callback_query_state resetDailyStats_def
      initial_def Set_add_def day1_def day2_def Let_def)

subsection \<open>Search with no query\<close>

text \<open>
  Claim C10. Whatever the registries hold, a search whose parameter \<open>q\<close> is missing or is the
  empty string answers with empty page and file lists, makes no call and leaves the state
  as it was.
\<close>

theorem search_empty_query:
  "get_search None s = (s, [], SearchResult [] []) \<and>
   get_search (Some []) s = (s, [], SearchResult [] [])"
  by (simp add: get_search_def toLowerCase_def)

theorem search_empty_query_witness:
  "get_search None (demo ''AgAC'') = (demo ''AgAC'', [], SearchResult [] []) \<and>
   get_search (Some []) (demo ''AgAC'') = (demo ''AgAC'', [], SearchResult [] []) \<and>
   botData (demo ''AgAC'') \<noteq> [] \<and> filesData (demo ''AgAC'') \<noteq> []"
  using search_empty_query [of "demo ''AgAC''"]
  by (simp add: demo_def promo_def)

subsection \<open>Importing a partial backup\<close>

text \<open>
  Claim C9. Importing a parsed backup replaces the Page Registry exactly when the document
  has the pages key, the File Registry exactly when it has the files key, and the statistics
  exactly when it has the stats key; the registry of an absent key stays as it was.
\<close>

theorem import_partial:
  "botData (fst (post_import now (Parsed b) s)) =
     (case b_botData b of Some pages \<Rightarrow> pages | None \<Rightarrow> botData s) \<and>
   filesData (fst (post_import now (Parsed b) s)) =
     (case b_filesData b of Some files \<Rightarrow> files | None \<Rightarrow> filesData s) \<and>
   stats (fst (post_import now (Parsed b) s)) =
     (case b_stats b of
        Some e \<Rightarrow> \<lparr>users = new_Set (case totalUsers e of Some us \<Rightarrow> us | None \<Rightarrow> []),
                   messages = (case totalMessages e of Some n \<Rightarrow> n | None \<Rightarrow> 0),
                   todayUsers = [], todayMessages = 0,
                   startDate = (case e_startDate e of Some d \<Rightarrow> d | None \<Rightarrow> now),
                   dailyReset = toDateString now\<rparr>
      | None \<Rightarrow> stats s)"
  by (simp add: post_import_def Let_def split: option.splits)

theorem import_partial_witness:
  "botData (fst (post_import day2
       (Parsed \<lparr>b_botData = None, b_filesData = Some [], b_stats = None, exportDate = None\<rparr>)
       (demo ''AgAC''))) = botData (demo ''AgAC'') \<and>
   filesData (fst (post_import day2
       (Parsed \<lparr>b_botData = None, b_filesData = Some [], b_stats = None, exportDate = None\<rparr>)
       (demo ''AgAC''))) = [] \<and>
   stats (fst (post_import day2
       (Parsed \<lparr>b_botData = None, b_filesData = Some [], b_stats = None, exportDate = None\<rparr>)
       (demo ''AgAC''))) = stats (demo ''AgAC'')"
  using import_partial [of day2
      "\<lparr>b_botData = None, b_filesData = Some [], b_stats = None, exportDate = None\<rparr>" "demo ''AgAC''"]
  by simp

subsection \<open>Deleting a button\<close>

lemma at_Row_iff: "at g r = Row row \<longleftrightarrow> r < length g \<and> g ! r = Row row"
  by (simp add: at_def)

text \<open>
  With numeric indices the handler does what is asked of it. An index pair that names a
  button removes exactly that button, and the row with it if the row is left empty, keeping
  the other rows in order.
\<close>

lemma delete_buttons_found:
  assumes "map_of (botData s) pageId = Some p" and "buttons p = Some g"
    and "r < length g" and "g ! r = Row row" and "i < length row"
  shows "delete_buttons pageId (Element r) (Element i) s =
           (s\<lparr>botData := assign pageId
                 (p\<lparr>buttons := Some (if length row = 1 then take r g @ drop (Suc r) g
                                        else g[r := Row (take i row @ drop (Suc i) row)])\<rparr>)
                 (botData s)\<rparr>, [SaveData], Success)"
proof -
  have a: "at g r = Row row"
    using assms by (simp add: at_def)
  have pa: "pageAt (botData s) pageId = Some p"
    using assms(1) by (rule pageAt_own)
  have t: "truthyAt row (Element i)" "spliceStart (Element i) = i"
    using assms(5) by (simp_all add: truthyAt_def spliceStart_def)
  have l: "length (splice row i) = length row - 1"
    using assms(5) by (simp add: splice_def)
  show ?thesis
  proof (cases "length row = 1")
    case True
    with l have z: "length (splice row i) = 0" by simp
    show ?thesis
      unfolding delete_buttons_def Let_def
      using assms(2,5) pa a t True z by (simp add: splice_def [of g r])
  next
    case False
    with l assms(5) have nz: "length (splice row i) \<noteq> 0" by simp
    show ?thesis
      unfolding delete_buttons_def Let_def
      using assms(2,5) pa a t False nz by (simp add: splice_def [of row i])
  qed
qed

text \<open>
  A numeric or omitted index that names no row or no button is answered with 404 and the
  state is unchanged, as is a request for a page that does not exist.
\<close>

lemma delete_buttons_not_found:
  assumes "rowIndex = Other \<or> (\<exists>r. rowIndex = Element r)"
    and "buttonIndex = Other \<or> (\<exists>i. buttonIndex = Element i)"
    and "\<not> (\<exists>p g r row i. pageAt (botData s) pageId = Some p \<and> buttons p = Some g \<and>
                 rowIndex = Element r \<and> buttonIndex = Element i \<and>
                 r < length g \<and> g ! r = Row row \<and> i < length row)"
  shows "delete_buttons pageId rowIndex buttonIndex s = (s, [], Error 404)"
  using assms
  by (auto simp: delete_buttons_def at_Row_iff truthyAt_def
      split: option.splits slot.splits index.splits)

lemma delete_only_button:
  "delete_buttons ''promo'' (Element 0) (Element 0) (promo [Row [goButton]]) =
     (promo [], [SaveData], Success)"
  by (simp add: delete_buttons_def pageAt_def promo_def initial_def at_def truthyAt_def
      spliceStart_def splice_def Let_def)

text \<open>
  Claim C7 at a button index that names no button. The claim says that an index naming a
  button that does not exist yields a not-found error and leaves the page unchanged. The page
  has one row with the two buttons \<open>goButton\<close> and \<open>backButton\<close>, and the request is
  \<^verbatim>\<open>{rowIndex: 0, buttonIndex: 'length'}\<close>. The handler tests \<^verbatim>\<open>row['length']\<close>, which is 2 and so
  truthy; \<^verbatim>\<open>splice('length', 1)\<close> then starts at index 0. The first button is deleted and the
  answer is the success message.
\<close>

theorem delete_by_property_name:
  "delete_buttons ''promo'' (Element 0) Length (promo [Row [goButton, backButton]]) =
     (promo [Row [backButton]], [SaveData], Success)"
  by (simp add: delete_buttons_def pageAt_def promo_def initial_def at_def truthyAt_def
      spliceStart_def splice_def Let_def)

text \<open>
  A row index \<^verbatim>\<open>__proto__\<close> passes the array test, and with a button index such as \<^verbatim>\<open>map\<close> the
  handler deletes the first row of the grid.
\<close>

lemma delete_by_proto:
  "delete_buttons ''promo'' Proto Method (promo [Row [goButton], Row [backButton]]) =
     (promo [Row [backButton]], [SaveData], Success)"
  by (simp add: delete_buttons_def pageAt_def promo_def initial_def splice_def)

subsection \<open>The Page Registry against the reference map\<close>






lemma page_ops_rejected:
  "pageAt (botData s) k \<noteq> None \<Longrightarrow> post_pages k d s = (s, [], Error 400)"
  "pageAt (botData s) k = None \<Longrightarrow> put_pages k b s = (s, [], Error 404)"
  "pageAt (botData s) k = None \<Longrightarrow> delete_pages k s = (s, [], Error 404)"
  by (auto simp: post_pages_def put_pages_def delete_pages_def split: option.splits)

lemma post_pages_invalid:
  "\<not> valid_op (Create k d) \<Longrightarrow> post_pages k d s = (s, [], Error 400)"
  by (auto simp: post_pages_def split: option.splits)






text \<open>
  A create request for the key \<^verbatim>\<open>constructor\<close> is answered as a duplicate on an empty registry,
  and a delete request for it succeeds and deletes nothing.
\<close>

lemma inherited_key_requests:
  "post_pages ''constructor'' (Some \<lparr>d_title = ''Promo'', d_message = ''Hi'', d_buttons = None\<rparr>)
     (initial day1) = (initial day1, [], Error 400) \<and>
   delete_pages ''constructor'' (initial day1) = (initial day1, [SaveData], Success) \<and>
   put_pages ''constructor'' \<lparr>p_title = Some ''Sale'', p_message = None, p_buttons = None\<rparr>
     (initial day1) =
     ((initial day1)\<lparr>botData := [(''constructor'',
         \<lparr>title = Some ''Sale'', message = None, buttons = None\<rparr>)]\<rparr>, [SaveData], Success)"
  by (simp add: post_pages_def put_pages_def delete_pages_def pageAt_def set_prop_def
      ObjectPrototype_def undefinedPage_def merge_page_def delete_key_def initial_def)

subsection \<open>Adding a button\<close>

lemma post_buttons_new_row:
  assumes "map_of (botData s) pageId = Some p" and "b_text b \<noteq> []"
    and "rowIndex = None \<or> rowIndex = Some (length (case buttons p of Some g \<Rightarrow> g | None \<Rightarrow> []))"
  shows "post_buttons pageId (Some b) rowIndex s =
           (s\<lparr>botData := assign pageId
                 (p\<lparr>buttons := Some ((case buttons p of Some g \<Rightarrow> g | None \<Rightarrow> []) @ [Row [b]])\<rparr>)
                 (botData s)\<rparr>, [SaveData], Success)"
  using assms by (auto simp: post_buttons_def at_def array_set_def Let_def)

lemma post_buttons_existing_row:
  assumes "map_of (botData s) pageId = Some p" and "b_text b \<noteq> []" and "buttons p = Some g"
    and "r < length g" and "g ! r = Row row"
  shows "post_buttons pageId (Some b) (Some r) s =
           (s\<lparr>botData := assign pageId (p\<lparr>buttons := Some (g[r := Row (row @ [b])])\<rparr>) (botData s)\<rparr>,
            [SaveData], Success)"
  using assms by (simp add: post_buttons_def at_def array_set_def Let_def)

lemma update_after_extend:
  assumes "length g \<le> r"
  shows "(g @ replicate (r - length g) Hole @ [v])[r := w] = g @ replicate (r - length g) Hole @ [w]"
proof -
  let ?xs = "g @ replicate (r - length g) Hole"
  have "length ?xs = r"
    using assms by simp
  then have "(?xs @ [v])[r := w] = ?xs @ [w]"
    using list_update_length [of ?xs v "[]" w] by simp
  then show ?thesis by simp
qed

lemma post_buttons_beyond_end:
  assumes "map_of (botData s) pageId = Some p" and "b_text b \<noteq> []" and "buttons p = Some g"
    and "length g < r"
  shows "post_buttons pageId (Some b) (Some r) s =
           (s\<lparr>botData := assign pageId
                 (p\<lparr>buttons := Some (g @ replicate (r - length g) Hole @ [Row [b]])\<rparr>)
                 (botData s)\<rparr>, [SaveData], Success)"
  using assms by (simp add: post_buttons_def at_def array_set_def Let_def nth_append update_after_extend)

lemma scenario_promo:
  "botData (fst (post_buttons ''promo'' (Some goButton) None (replay [createPromo] (initial day1)))) =
     [(''promo'', \<lparr>title = Some ''Promo'', message = Some ''Hi'',
                   buttons = Some [Row [goButton]]\<rparr>)]"
  by (simp add: post_buttons_def post_pages_def initial_def goButton_def at_def array_set_def
      Let_def replay_def createPromo_def pageAt_def ObjectPrototype_def)

text \<open>
  Claim C6 at a row index beyond the end. The page has one row and the request names row 3.
  The claim asks for a new row appended after the existing one, that is, for the grid
  \<open>[Row [goButton], Row [goButton]]\<close>. The code writes the new row at index 3 and leaves two
  empty slots before it.
\<close>

theorem add_button_beyond_end:
  "post_buttons ''promo'' (Some goButton) (Some 3) (promo [Row [goButton]]) =
     (promo [Row [goButton], Hole, Hole, Row [goButton]], [SaveData], Success)"
  by (simp add: post_buttons_def promo_def initial_def goButton_def at_def array_set_def Let_def
      numeral_eq_Suc)

subsection \<open>Export followed by import\<close>

lemma toJSON_slot_id: "x \<noteq> Hole \<Longrightarrow> toJSON_slot x = x"
  by (cases x) (simp_all add: toJSON_slot_def)

lemma toJSON_grid_id: "Hole \<notin> set g \<Longrightarrow> map toJSON_slot g = g"
  by (induction g) (auto simp: toJSON_slot_id)

lemma toJSON_page_id:
  "(case buttons p of Some g \<Rightarrow> Hole \<notin> set g | None \<Rightarrow> True) \<Longrightarrow> toJSON_page p = p"
  by (cases "buttons p") (simp_all add: toJSON_page_def toJSON_grid_id)

lemma toJSON_pages_id: "dense ps \<Longrightarrow> toJSON_pages ps = ps"
  by (induction ps) (auto simp: dense_def toJSON_pages_def toJSON_page_id)

lemma get_export_response:
  "snd (snd (get_export now s)) =
     ExportData \<lparr>b_botData = Some (toJSON_pages (botData s)),
                 b_filesData = Some (filesData s),
                 b_stats = Some \<lparr>totalUsers = Some (users (stats (fst (resetDailyStats now s)))),
                                 totalMessages = Some (messages (stats (fst (resetDailyStats now s)))),
                                 e_startDate = Some (startDate (stats (fst (resetDailyStats now s))))\<rparr>,
                 exportDate = Some now\<rparr>"
  by (simp add: get_export_def Let_def case_prod_beta toJSON_backup_def
      resetDailyStats_botData resetDailyStats_filesData)

lemma get_export_registries:
  "botData (fst (get_export now s)) = botData s"
  "filesData (fst (get_export now s)) = filesData s"
  by (simp_all add: get_export_def Let_def case_prod_beta
      resetDailyStats_botData resetDailyStats_filesData)

text \<open>
  A state whose button grids have no empty slot survives the round trip: exporting at any
  time and importing the downloaded document at any time, into any state of the system,
  succeeds and yields a Page Registry and a File Registry equal to those exported.
\<close>

lemma export_import_roundtrip:
  "dense (botData s) \<Longrightarrow>
   botData (fst (post_import now' (reupload (snd (snd (get_export now s)))) t)) = botData s \<and>
   filesData (fst (post_import now' (reupload (snd (snd (get_export now s)))) t)) = filesData s \<and>
   snd (snd (post_import now' (reupload (snd (snd (get_export now s)))) t)) = Success"
  by (simp add: get_export_response reupload_def post_import_def Let_def toJSON_pages_id)

text \<open>
  Claim C8 at a grid with an empty slot. The claim says that export followed by import
  reproduces the Page Registry for every state. In the state left by adding a button at row
  1 of the empty grid of page \<^verbatim>\<open>promo\<close>, row 0 is an empty slot. The export writes it as
  \<^verbatim>\<open>null\<close>, and the import of the downloaded document yields a registry that differs from the
  exported one.
\<close>

theorem export_import_sparse:
  "botData sparsePromo =
     [(''promo'', \<lparr>title = Some ''Promo'', message = Some ''Hi'',
                   buttons = Some [Hole, Row [goButton]]\<rparr>)] \<and>
   botData (fst (post_import day1 (reupload (snd (snd (get_export day1 sparsePromo)))) sparsePromo)) =
     [(''promo'', \<lparr>title = Some ''Promo'', message = Some ''Hi'',
                   buttons = Some [Null, Row [goButton]]\<rparr>)]"
  by (simp add: sparsePromo_def post_buttons_def promo_def initial_def goButton_def at_def
      array_set_def Let_def get_export_response reupload_def post_import_def toJSON_pages_def
      toJSON_page_def toJSON_slot_def)

text \<open>Rendering the imported page throws, where rendering the exported one skips the slot.\<close>

lemma imported_sparse_page_throws:
  "showPage (fst (post_import day1 (reupload (snd (snd (get_export day1 sparsePromo)))) sparsePromo))
     7 ''promo'' None = Inl TypeError"
  by (simp add: sparsePromo_def post_buttons_def promo_def initial_def goButton_def at_def
      array_set_def Let_def get_export_response reupload_def post_import_def toJSON_pages_def
      toJSON_page_def toJSON_slot_def showPage_def pageAt_def)

subsection \<open>Dispatch of a callback payload\<close>

lemma prefixes_exclusive:
  "startsWith d ''page_'' \<Longrightarrow> \<not> startsWith d ''file_''"
  "startsWith d ''text_'' \<Longrightarrow> \<not> startsWith d ''file_''"
  "startsWith d ''text_'' \<Longrightarrow> \<not> startsWith d ''page_''"
  by (auto simp: startsWith_def)

text \<open>The handler with its bookkeeping folded away.\<close>

lemma callback_query_unfold:
  "callback_query tr now q s =
     (let chatId = chat_id q; messageId = message_id q; data = payload q;
          s2 = fst (callback_query tr now q s);
          c2 = bookkeeping now q s
      in if \<not> tr (AnswerCallbackQuery (q_id q)) then (s2, c2, Failed TransportError)
         else if startsWith data ''file_'' then
           (case map_of (filesData s) (substring data 5) of
              None \<Rightarrow> (s2, c2 @ [SendMessage chatId (Notice FileUnavailable) NoOpts], Completed)
            | Some f \<Rightarrow>
                if file_id f \<noteq> [] then
                  (if tr (delivery chatId f) then (s2, c2 @ [delivery chatId f], Completed)
                   else (s2, c2 @ [delivery chatId f, SendMessage chatId (Notice FileSendError) NoOpts],
                         Completed))
                else (s2, c2 @ [SendMessage chatId (Notice FileUnavailable) NoOpts], Completed))
         else if startsWith data ''page_'' then
           (if pageAt (botData s) (substring data 5) \<noteq> None then
              (case showPage s chatId (substring data 5) (Some messageId) of
                 Inl e \<Rightarrow> (s2, c2, Failed e)
               | Inr c \<Rightarrow> (s2, c2 @ c, Completed))
            else (s2, c2 @ [EditMessageText (Notice PageUnavailable) chatId messageId NoOpts],
                  Completed))
         else if startsWith data ''text_'' then
           (s2, c2 @ [SendMessage chatId (Str (substring data 5)) NoOpts], Completed)
         else (s2, c2 @ [EditMessageText (Notice UnknownButton) chatId messageId NoOpts],
               Completed))"
  apply (simp only: callback_query_state)
  apply (simp add: callback_query_def Let_def case_prod_beta bookkeeping_def payload_def
      delivery_def resetDailyStats_botData resetDailyStats_filesData showPage_def
      split: option.splits)
  done

lemma showPage_present:
  "pageAt (botData s) k = Some p \<Longrightarrow> keyboard p = Inr kb \<Longrightarrow> m \<noteq> 0 \<Longrightarrow>
   showPage s chatId k (Some m) = Inr [EditMessageText (pageText p) chatId m (MarkdownKeyboard kb)]"
  by (simp add: showPage_def keyboard_def pageText_def)

text \<open>
  What the branches of the handler do with an object that has the property \<^verbatim>\<open>callback_data\<close>,
  when the transport accepts the acknowledgement.
\<close>

lemma cq_file_delivered:
  assumes "tr (AnswerCallbackQuery (q_id q))" and "startsWith (payload q) ''file_''"
    and "map_of (filesData s) (substring (payload q) 5) = Some f" and "file_id f \<noteq> []"
  shows "snd (callback_query tr now q s) =
           (bookkeeping now q s @ delivery (chat_id q) f #
              (if tr (delivery (chat_id q) f) then []
               else [SendMessage (chat_id q) (Notice FileSendError) NoOpts]), Completed)"
  apply (subst callback_query_unfold)
  using assms apply (simp add: Let_def)
  done

lemma cq_file_unavailable:
  assumes "tr (AnswerCallbackQuery (q_id q))" and "startsWith (payload q) ''file_''"
    and "map_of (filesData s) (substring (payload q) 5) = None \<or>
         (\<exists>f. map_of (filesData s) (substring (payload q) 5) = Some f \<and> file_id f = [])"
  shows "snd (callback_query tr now q s) =
           (bookkeeping now q s @ [SendMessage (chat_id q) (Notice FileUnavailable) NoOpts], Completed)"
  apply (subst callback_query_unfold)
  using assms apply (auto simp: Let_def)
  done

lemma cq_page_present:
  assumes "tr (AnswerCallbackQuery (q_id q))" and "startsWith (payload q) ''page_''"
    and "pageAt (botData s) (substring (payload q) 5) = Some p" and "keyboard p = Inr kb"
    and "message_id q \<noteq> 0"
  shows "snd (callback_query tr now q s) =
           (bookkeeping now q s @
              [EditMessageText (pageText p) (chat_id q) (message_id q) (MarkdownKeyboard kb)],
            Completed)"
  apply (subst callback_query_unfold)
  using assms apply (simp add: Let_def prefixes_exclusive showPage_present)
  done

lemma cq_page_absent:
  assumes "tr (AnswerCallbackQuery (q_id q))" and "startsWith (payload q) ''page_''"
    and "pageAt (botData s) (substring (payload q) 5) = None"
  shows "snd (callback_query tr now q s) =
           (bookkeeping now q s @
              [EditMessageText (Notice PageUnavailable) (chat_id q) (message_id q) NoOpts],
            Completed)"
  apply (subst callback_query_unfold)
  using assms apply (simp add: Let_def prefixes_exclusive)
  done

lemma cq_text:
  assumes "tr (AnswerCallbackQuery (q_id q))" and "startsWith (payload q) ''text_''"
  shows "snd (callback_query tr now q s) =
           (bookkeeping now q s @ [SendMessage (chat_id q) (Str (substring (payload q) 5)) NoOpts],
            Completed)"
  apply (subst callback_query_unfold)
  using assms apply (simp add: Let_def prefixes_exclusive)
  done

lemma cq_unknown:
  assumes "tr (AnswerCallbackQuery (q_id q))" and "\<not> startsWith (payload q) ''file_''"
    and "\<not> startsWith (payload q) ''page_''" and "\<not> startsWith (payload q) ''text_''"
  shows "snd (callback_query tr now q s) =
           (bookkeeping now q s @
              [EditMessageText (Notice UnknownButton) (chat_id q) (message_id q) NoOpts],
            Completed)"
  apply (subst callback_query_unfold)
  using assms apply (simp add: Let_def)
  done

text \<open>If the transport rejects the acknowledgement the handler stops before it dispatches.\<close>

lemma cq_ack_rejected:
  assumes "\<not> tr (AnswerCallbackQuery (q_id q))"
  shows "snd (callback_query tr now q s) = (bookkeeping now q s, Failed TransportError)"
  apply (subst callback_query_unfold)
  using assms apply (simp add: Let_def)
  done

text \<open>
  On an object with the property \<^verbatim>\<open>callback_data\<close> the prefixes are dispatched: the file is
  delivered by MIME class, the page is shown by editing the message, and the literal is
  sent as a new message.
\<close>

lemma dispatch_on_callback_data:
  "snd (callback_query (\<lambda>c. True) day1 (pressWith ''file_1'') (demo ''AgAC'')) =
     ([SaveData, AnswerCallbackQuery ''q1'', SendPhoto 7 ''AgAC''], Completed) \<and>
   snd (callback_query (\<lambda>c. True) day1 (pressWith ''file_999'') (demo ''AgAC'')) =
     ([SaveData, AnswerCallbackQuery ''q1'', SendMessage 7 (Notice FileUnavailable) NoOpts],
      Completed) \<and>
   snd (callback_query (\<lambda>c. True) day1 (pressWith ''page_promo'') (demo ''AgAC'')) =
     ([SaveData, AnswerCallbackQuery ''q1'',
       EditMessageText (Str (''Promo'' @ [CHR 0x0A, CHR 0x0A] @ ''Hi'')) 7 3
         (MarkdownKeyboard [Row [CallbackButton ''Go'' ''page_main_page'']])], Completed) \<and>
   snd (callback_query (\<lambda>c. True) day1 (pressWith ''page_main_page'') (demo ''AgAC'')) =
     ([SaveData, AnswerCallbackQuery ''q1'', EditMessageText (Notice PageUnavailable) 7 3 NoOpts],
      Completed) \<and>
   snd (callback_query (\<lambda>c. True) day1 (pressWith ''text_hello'') (demo ''AgAC'')) =
     ([SaveData, AnswerCallbackQuery ''q1'', SendMessage 7 (Str ''hello'') NoOpts], Completed)"
  by (simp add: callback_query_def resetDailyStats_def demo_def promo_def initial_def
      pressWith_def photo_def goButton_def String_js_def startsWith_def substring_def
      showPage_def pageAt_def ObjectPrototype_def renderButton_def Let_def day1_def)

text \<open>
  A press as the transport delivers it has no property \<^verbatim>\<open>callback_data\<close>. The handler decodes
  the string \<^verbatim>\<open>undefined\<close>, which has none of the three prefixes, and takes the fallback.
\<close>

lemma cq_without_callback_data:
  assumes "tr (AnswerCallbackQuery (q_id q))" and "q_callback_data q = None"
  shows "snd (callback_query tr now q s) =
           (bookkeeping now q s @
              [EditMessageText (Notice UnknownButton) (chat_id q) (message_id q) NoOpts],
            Completed)"
proof -
  have "payload q = ''undefined''"
    using assms(2) by (simp add: payload_def String_js_def)
  then have "\<not> startsWith (payload q) ''file_''" "\<not> startsWith (payload q) ''page_''"
    "\<not> startsWith (payload q) ''text_''"
    by (simp_all add: startsWith_def)
  with assms(1) show ?thesis
    by (rule cq_unknown)
qed

text \<open>
  Claim C1 at a button press as the transport delivers it. The claim says that a payload
  starting with \<^verbatim>\<open>file_\<close> delivers the named file, one starting with \<^verbatim>\<open>page_\<close> shows the named
  page by editing the message, and one starting with \<^verbatim>\<open>text_\<close> sends the literal. The bot
  holds the file \<^verbatim>\<open>1\<close> and the page \<^verbatim>\<open>promo\<close>, and the transport accepts every call. The payload
  of a press arrives in the field \<^verbatim>\<open>data\<close>; the handler reads \<^verbatim>\<open>callback_data\<close> and decodes the
  string \<^verbatim>\<open>undefined\<close>. For each of the three payloads the only call after the bookkeeping is
  the edit of the message to the ``unknown button'' notice: no file is delivered, no page is
  shown and no literal is sent.
\<close>

theorem press_payload_ignored:
  "q_data (press ''file_1'') = Some ''file_1'' \<and> payload (press ''file_1'') = ''undefined'' \<and>
   map_of (filesData (demo ''AgAC'')) ''1'' = Some (photo ''AgAC'') \<and>
   map_of (botData (demo ''AgAC'')) ''promo'' \<noteq> None \<and>
   snd (callback_query (\<lambda>c. True) day1 (press ''file_1'') (demo ''AgAC'')) =
     ([SaveData, AnswerCallbackQuery ''q1'', EditMessageText (Notice UnknownButton) 7 3 NoOpts],
      Completed) \<and>
   snd (callback_query (\<lambda>c. True) day1 (press ''page_promo'') (demo ''AgAC'')) =
     ([SaveData, AnswerCallbackQuery ''q1'', EditMessageText (Notice UnknownButton) 7 3 NoOpts],
      Completed) \<and>
   snd (callback_query (\<lambda>c. True) day1 (press ''text_hello'') (demo ''AgAC'')) =
     ([SaveData, AnswerCallbackQuery ''q1'', EditMessageText (Notice UnknownButton) 7 3 NoOpts],
      Completed)"
  by (simp add: callback_query_def resetDailyStats_def demo_def promo_def initial_def
      press_def payload_def String_js_def startsWith_def Let_def day1_def)

end
